theory Spec2Isabelle
  imports Main
begin

section \<open>JavaScript values\<close>

text \<open>
  The values the configuration routes handle: \<^verbatim>\<open>undefined\<close>, \<^verbatim>\<open>null\<close>, booleans,
  integral numbers, strings and plain objects. An object is the list of its own
  properties in enumeration order. Arrays are left out: no field of a configuration
  document and no response of the service is one. A \<^typ>\<open>char\<close> is one UTF-16 code unit
  below 256.
\<close>

datatype json =
    JUndefined
  | JNull
  | JBool bool
  | JNum int
  | JStr string
  | JObj "(string \<times> json) list"

type_synonym props = "(string \<times> json) list"

text \<open>ToBoolean, as \<^verbatim>\<open>!x\<close> and \<^verbatim>\<open>x || y\<close> use it.\<close>

fun truthy :: "json \<Rightarrow> bool" where
  "truthy JUndefined = False"
| "truthy JNull = False"
| "truthy (JBool b) = b"
| "truthy (JNum n) = (n \<noteq> 0)"
| "truthy (JStr s) = (s \<noteq> [])"
| "truthy (JObj ps) = True"

fun typeof :: "json \<Rightarrow> string" where
  "typeof JUndefined = ''undefined''"
| "typeof JNull = ''object''"
| "typeof (JBool b) = ''boolean''"
| "typeof (JNum n) = ''number''"
| "typeof (JStr s) = ''string''"
| "typeof (JObj ps) = ''object''"

text \<open>
  A string that may be absent (an environment variable, a request header, a query
  parameter): \<open>None\<close> is \<^verbatim>\<open>undefined\<close>. \<open>or_else x d\<close> is \<^verbatim>\<open>x || d\<close>: the empty
  string is falsy.
\<close>

definition present :: "string option \<Rightarrow> bool" where
  "present x = (case x of None \<Rightarrow> False | Some s \<Rightarrow> s \<noteq> [])"

definition or_else :: "string option \<Rightarrow> string \<Rightarrow> string" where
  "or_else x d = (case x of None \<Rightarrow> d | Some s \<Rightarrow> if s = [] then d else s)"

definition str_or_undefined :: "string option \<Rightarrow> json" where
  "str_or_undefined x = (case x of None \<Rightarrow> JUndefined | Some s \<Rightarrow> JStr s)"

subsection \<open>Numerals and letters\<close>

definition digit_char :: "nat \<Rightarrow> char" where
  "digit_char d = char_of (48 + d)"

fun show_nat :: "nat \<Rightarrow> string" where
  "show_nat n = (if n < 10 then [digit_char n] else show_nat (n div 10) @ [digit_char (n mod 10)])"

declare show_nat.simps [simp del]

definition show_int :: "int \<Rightarrow> string" where
  "show_int i = (if i < 0 then CHR ''-'' # show_nat (nat (- i)) else show_nat (nat i))"

definition is_digit :: "char \<Rightarrow> bool" where
  "is_digit c = (48 \<le> (of_char c :: nat) \<and> (of_char c :: nat) \<le> 57)"

definition digits_value :: "string \<Rightarrow> nat" where
  "digits_value s = foldl (\<lambda>acc c. 10 * acc + ((of_char c :: nat) - 48)) 0 s"

text \<open>
  A property key that is an array index (the canonical decimal text of an integer
  below \<open>2^32 - 1\<close>): such keys are enumerated first, in ascending order.
\<close>

definition array_index :: "string \<Rightarrow> nat option" where
  "array_index k =
     (if k \<noteq> [] \<and> list_all is_digit k \<and> (k = ''0'' \<or> hd k \<noteq> CHR ''0'')
         \<and> length k \<le> 10 \<and> digits_value k < 4294967295
      then Some (digits_value k) else None)"

definition upper_char :: "char \<Rightarrow> char" where
  "upper_char c =
     (if 97 \<le> (of_char c :: nat) \<and> (of_char c :: nat) \<le> 122
      then char_of ((of_char c :: nat) - 32) else c)"

definition lower_char :: "char \<Rightarrow> char" where
  "lower_char c =
     (if 65 \<le> (of_char c :: nat) \<and> (of_char c :: nat) \<le> 90
      then char_of ((of_char c :: nat) + 32) else c)"

text \<open>
  \<^verbatim>\<open>toUpperCase\<close> on ASCII letters; the program calls it on the environment names it
  passes itself (\<^verbatim>\<open>'test'\<close>).
\<close>

definition toUpperCase :: "string \<Rightarrow> string" where
  "toUpperCase s = map upper_char s"

definition toLowerCase :: "string \<Rightarrow> string" where
  "toLowerCase s = map lower_char s"

text \<open>\<^verbatim>\<open>s.replace(pat, rep)\<close> with a string pattern: the first occurrence only.\<close>

fun replace_first :: "string \<Rightarrow> string \<Rightarrow> string \<Rightarrow> string" where
  "replace_first pat rep [] = (if pat = [] then rep else [])"
| "replace_first pat rep (c # cs) =
     (if take (length pat) (c # cs) = pat then rep @ drop (length pat) (c # cs)
      else c # replace_first pat rep cs)"

subsection \<open>Own properties\<close>

definition has_own :: "props \<Rightarrow> string \<Rightarrow> bool" where
  "has_own ps k = (map_of ps k \<noteq> None)"

text \<open>\<^verbatim>\<open>obj.k\<close> on a plain object whose prototype chain holds no \<^verbatim>\<open>k\<close>.\<close>

definition get_prop :: "props \<Rightarrow> string \<Rightarrow> json" where
  "get_prop ps k = (case map_of ps k of None \<Rightarrow> JUndefined | Some v \<Rightarrow> v)"

fun replace_own :: "string \<Rightarrow> json \<Rightarrow> props \<Rightarrow> props" where
  "replace_own k v [] = []"
| "replace_own k v (p # ps) = (if fst p = k then (k, v) # ps else p # replace_own k v ps)"

text \<open>
  A new own property takes its place in the enumeration order: an array index goes
  among the leading index keys, any other key goes last.
\<close>

fun insert_index :: "nat \<Rightarrow> string \<Rightarrow> json \<Rightarrow> props \<Rightarrow> props" where
  "insert_index i k v [] = [(k, v)]"
| "insert_index i k v (p # ps) =
     (case array_index (fst p) of
        None \<Rightarrow> (k, v) # p # ps
      | Some j \<Rightarrow> if i < j then (k, v) # p # ps else p # insert_index i k v ps)"

text \<open>
  CreateDataProperty, as an object literal and a spread use it: the property becomes
  an own property, whatever its name.
\<close>

definition define_prop :: "string \<Rightarrow> json \<Rightarrow> props \<Rightarrow> props" where
  "define_prop k v ps =
     (if has_own ps k then replace_own k v ps
      else case array_index k of
             None \<Rightarrow> ps @ [(k, v)]
           | Some i \<Rightarrow> insert_index i k v ps)"

text \<open>
  The assignment \<^verbatim>\<open>target[k] = v\<close>, as \<^verbatim>\<open>Object.assign\<close> uses it. An own property is
  overwritten. A key \<^verbatim>\<open>__proto__\<close> that is not an own property reaches the accessor
  of \<^verbatim>\<open>Object.prototype\<close>, which changes the prototype and no own property; prototypes
  are not part of this model, which takes every object to inherit that accessor.
\<close>

definition assign_prop :: "string \<Rightarrow> json \<Rightarrow> props \<Rightarrow> props" where
  "assign_prop k v ps =
     (if has_own ps k then replace_own k v ps
      else if k = ''__proto__'' then ps
      else define_prop k v ps)"

text \<open>\<^verbatim>\<open>{...src}\<close> into the properties \<open>ps\<close> written so far.\<close>

definition spread :: "props \<Rightarrow> props \<Rightarrow> props" where
  "spread src ps = fold (\<lambda>(k, v). define_prop k v) src ps"

text \<open>\<^verbatim>\<open>Object.assign(target, src)\<close> on the own properties of a plain target.\<close>

definition Object_assign :: "props \<Rightarrow> props \<Rightarrow> props" where
  "Object_assign target src = fold (\<lambda>(k, v). assign_prop k v) src target"

subsection \<open>Serialisation\<close>

definition hex_digit :: "nat \<Rightarrow> char" where
  "hex_digit d = (if d < 10 then char_of (48 + d) else char_of (87 + d))"

text \<open>QuoteJSONString on one code unit.\<close>

definition quote_char :: "char \<Rightarrow> string" where
  "quote_char c =
     (let n = (of_char c :: nat) in
      if n = 8 then [CHR 0x5C, CHR ''b'']
      else if n = 9 then [CHR 0x5C, CHR ''t'']
      else if n = 10 then [CHR 0x5C, CHR ''n'']
      else if n = 12 then [CHR 0x5C, CHR ''f'']
      else if n = 13 then [CHR 0x5C, CHR ''r'']
      else if n = 34 then [CHR 0x5C, CHR 0x22]
      else if n = 92 then [CHR 0x5C, CHR 0x5C]
      else if n < 32 then [CHR 0x5C, CHR ''u'', CHR ''0'', CHR ''0'', hex_digit (n div 16), hex_digit (n mod 16)]
      else [c])"

definition quote :: "string \<Rightarrow> string" where
  "quote s = CHR 0x22 # concat (map quote_char s) @ [CHR 0x22]"

fun join :: "string \<Rightarrow> string list \<Rightarrow> string" where
  "join sep [] = []"
| "join sep [x] = x"
| "join sep (x # y # ys) = x @ sep @ join sep (y # ys)"

text \<open>
  \<^verbatim>\<open>JSON.stringify(v)\<close>: \<open>None\<close> is the result \<^verbatim>\<open>undefined\<close>, which only
  \<^verbatim>\<open>undefined\<close> itself gives; a property whose value is \<^verbatim>\<open>undefined\<close> is skipped.
\<close>

fun JSON_stringify :: "json \<Rightarrow> string option"
  and stringify_props :: "props \<Rightarrow> string list" where
  "JSON_stringify JUndefined = None"
| "JSON_stringify JNull = Some ''null''"
| "JSON_stringify (JBool b) = Some (if b then ''true'' else ''false'')"
| "JSON_stringify (JNum n) = Some (show_int n)"
| "JSON_stringify (JStr s) = Some (quote s)"
| "JSON_stringify (JObj ps) = Some (''{'' @ join '','' (stringify_props ps) @ ''}'')"
| "stringify_props [] = []"
| "stringify_props ((k, v) # ps) =
     (case JSON_stringify v of
        None \<Rightarrow> stringify_props ps
      | Some t \<Rightarrow> (quote k @ '':'' @ t) # stringify_props ps)"

text \<open>\<^verbatim>\<open>Buffer.from(s)\<close>: the UTF-8 bytes of the string.\<close>

definition utf8_char :: "char \<Rightarrow> nat list" where
  "utf8_char c =
     (let n = (of_char c :: nat) in
      if n < 128 then [n] else [192 + n div 64, 128 + n mod 64])"

definition Buffer_from :: "string \<Rightarrow> nat list" where
  "Buffer_from s = concat (map utf8_char s)"

definition base64_char :: "nat \<Rightarrow> char" where
  "base64_char n =
     (if n < 26 then char_of (65 + n)
      else if n < 52 then char_of (71 + n)
      else if n < 62 then char_of (n - 4)
      else if n = 62 then CHR ''+'' else CHR ''/'')"

text \<open>\<^verbatim>\<open>buf.toString('base64')\<close>: three bytes give four characters, with \<^verbatim>\<open>=\<close> padding.\<close>

fun toString_base64 :: "nat list \<Rightarrow> string" where
  "toString_base64 [] = []"
| "toString_base64 [a] =
     [base64_char (a div 4), base64_char ((a mod 4) * 16), CHR ''='', CHR ''='']"
| "toString_base64 [a, b] =
     [base64_char (a div 4), base64_char ((a mod 4) * 16 + b div 16),
      base64_char ((b mod 16) * 4), CHR ''='']"
| "toString_base64 (a # b # c # bs) =
     [base64_char (a div 4), base64_char ((a mod 4) * 16 + b div 16),
      base64_char ((b mod 16) * 4 + c div 64), base64_char (c mod 64)]
     @ toString_base64 bs"

section \<open>The server's state\<close>

text \<open>
  A cached configuration document is an object that several cache keys may hold at the
  same time, so documents live in a heap and the cache holds their addresses; two
  keys hold the same instance when they hold the same address. The values inside a
  document belong to that document alone (a parsed text and the legacy literal build
  fresh ones, and nothing copies a reference from one cached document into another),
  so they are kept by value.
\<close>

type_synonym addr = nat

type_synonym process_env = "string \<rightharpoonup> string"

record clientData =
  count :: nat
  resetTime :: int

record server =
  heap :: "props list"
  configCache :: "string \<rightharpoonup> addr"
  APP_CONFIG :: "addr option"
  APP_CONFIG_TEST :: "addr option"
  rateLimitStore :: "string \<rightharpoonup> clientData"

definition alloc :: "props \<Rightarrow> server \<Rightarrow> addr \<times> server" where
  "alloc ps s = (length (heap s), s\<lparr>heap := heap s @ [ps]\<rparr>)"

definition deref :: "server \<Rightarrow> addr \<Rightarrow> props option" where
  "deref s a = (if a < length (heap s) then Some (heap s ! a) else None)"

text \<open>The object a variable holds: \<open>None\<close> is \<^verbatim>\<open>undefined\<close>.\<close>

definition object_at :: "server \<Rightarrow> addr option \<Rightarrow> props option" where
  "object_at s r = (case r of None \<Rightarrow> None | Some a \<Rightarrow> deref s a)"

section \<open>Loading the configuration\<close>

definition VALID_API_KEYS :: "process_env \<Rightarrow> string option list" where
  "VALID_API_KEYS env = [env ''API_KEY_IOS'', env ''API_KEY_ANDROID'', env ''API_KEY_WEB'']"

definition getLegacyConfig :: "process_env \<Rightarrow> props" where
  "getLegacyConfig env =
     [(''aws'', JObj [(''cognito'', JObj
          [(''userPoolId'', str_or_undefined (env ''USER_POOL_ID'')),
           (''appClientId'', str_or_undefined (env ''APP_CLIENT_ID''))])]),
      (''api'', JObj [(''websocketEndpoint'', str_or_undefined (env ''WEBSOCKET_ENDPOINT''))]),
      (''bot'', JObj
          [(''botId'', str_or_undefined (env ''BOT_ID'')),
           (''foundationModel'', JStr (or_else (env ''FOUNDATION_MODEL'') ''claude-v3.7-sonnet''))]),
      (''features'', JObj
          [(''darkMode'', JBool (env ''FEATURE_DARK_MODE'' = Some ''true'' \<or> False)),
           (''analytics'', JBool (env ''FEATURE_ANALYTICS'' = Some ''true'' \<or> True)),
           (''newCheckout'', JBool (env ''FEATURE_NEW_CHECKOUT'' = Some ''true'' \<or> False))]),
      (''version'', JStr (or_else (env ''CONFIG_VERSION'') ''1.0.0''))]"

text \<open>
  \<open>JSON_parse\<close> stands for \<^verbatim>\<open>JSON.parse\<close> on the structured inputs: the properties
  of the object the text holds, or \<open>None\<close> when \<^verbatim>\<open>JSON.parse\<close> throws. A structured
  input is a configuration document; a text that parses to something else than an
  object is outside this model.
\<close>

definition parsed_input :: "(string \<Rightarrow> props option) \<Rightarrow> process_env \<Rightarrow> string \<Rightarrow> props option" where
  "parsed_input JSON_parse env envVarName =
     (case env envVarName of
        None \<Rightarrow> None
      | Some text \<Rightarrow> if text = [] then None else JSON_parse text)"

text \<open>The name of the structured input of a version and an environment.\<close>

definition envVarName :: "string \<Rightarrow> string \<Rightarrow> string" where
  "envVarName version environment =
     (let versionSuffix = (if version \<noteq> [] then ''_'' @ version else []);
          envSuffix = (if environment \<noteq> [] then ''_'' @ toUpperCase environment else [])
      in ''APP_CONFIG'' @ versionSuffix @ envSuffix)"

text \<open>
  A parsed text and the legacy literal are new objects; the fallbacks return an object
  the cache already holds.
\<close>

definition getAppConfig ::
  "(string \<Rightarrow> props option) \<Rightarrow> process_env \<Rightarrow> string \<Rightarrow> string \<Rightarrow> server \<Rightarrow> addr \<times> server" where
  "getAppConfig JSON_parse env version environment s =
     (case parsed_input JSON_parse env (envVarName version environment) of
        Some parsedConfig \<Rightarrow> alloc parsedConfig s
      | None \<Rightarrow>
             if environment \<noteq> [] \<and> version = [] then
               (case configCache s [] of
                  Some a \<Rightarrow> (a, s)
                | None \<Rightarrow> alloc (getLegacyConfig env) s)
             else if environment \<noteq> [] \<and> version \<noteq> [] then
               (case configCache s version of
                  Some a \<Rightarrow> (a, s)
                | None \<Rightarrow>
                    (case configCache s [] of
                       Some a \<Rightarrow> (a, s)
                     | None \<Rightarrow> alloc (getLegacyConfig env) s))
             else if version \<noteq> [] \<and> environment = [] then
               (case configCache s [] of
                  Some a \<Rightarrow> (a, s)
                | None \<Rightarrow> alloc (getLegacyConfig env) s)
             else alloc (getLegacyConfig env) s)"

text \<open>One round of the start-up loop: the plain entry, then the test entry.\<close>

definition cache_version ::
  "(string \<Rightarrow> props option) \<Rightarrow> process_env \<Rightarrow> string \<Rightarrow> server \<Rightarrow> server" where
  "cache_version JSON_parse env version s =
     (let (config, s1) = getAppConfig JSON_parse env version [] s;
          s2 = s1\<lparr>configCache := (configCache s1)(version \<mapsto> config)\<rparr>;
          (testConfig, s3) = getAppConfig JSON_parse env version ''test'' s2
      in s3\<lparr>configCache := (configCache s3)(version @ ''_test'' \<mapsto> testConfig)\<rparr>)"

definition declared_versions :: "string list" where
  "declared_versions = [[], ''2'', ''3'', ''4'', ''5'']"

definition empty_server :: server where
  "empty_server =
     \<lparr>heap = [], configCache = Map.empty, APP_CONFIG = None, APP_CONFIG_TEST = None,
      rateLimitStore = Map.empty\<rparr>"

text \<open>Module initialisation: the cache, then the two legacy constants.\<close>

definition startup :: "(string \<Rightarrow> props option) \<Rightarrow> process_env \<Rightarrow> server" where
  "startup JSON_parse env =
     (let s = fold (cache_version JSON_parse env) declared_versions empty_server
      in s\<lparr>APP_CONFIG := configCache s [], APP_CONFIG_TEST := configCache s ''_test''\<rparr>)"

section \<open>Requests and responses\<close>

datatype http_method = GET | POST

text \<open>
  \<open>path\<close> holds the segments of the request path below the mount point \<^verbatim>\<open>/api\<close>,
  free of percent escapes; header names are in lower case, as Node delivers them; a
  query parameter is a single string; \<open>body\<close> is the object the JSON body parser
  left in \<^verbatim>\<open>req.body\<close> (the empty object when the request has no body).
\<close>

record request =
  httpMethod :: http_method
  path :: "string list"
  ip :: string
  headers :: "string \<rightharpoonup> string"
  query :: "string \<rightharpoonup> string"
  body :: props

record response =
  status :: nat
  header_fields :: "(string \<times> string) list"
  payload :: json

text \<open>
  What a request reads from outside: \<^verbatim>\<open>Date.now()\<close>, \<^verbatim>\<open>new Date().toISOString()\<close> and
  \<^verbatim>\<open>Math.random().toString(36)\<close>. All clock readings of one request are taken to be
  the same instant.
\<close>

record clock =
  now :: int
  isoString :: string
  random36 :: string

datatype outcome =
    Responded response
  | Threw string
  | NoRoute

section \<open>The request gate\<close>

definition RATE_LIMIT_WINDOW :: int where
  "RATE_LIMIT_WINDOW = 60 * 1000"

definition RATE_LIMIT_MAX_REQUESTS :: nat where
  "RATE_LIMIT_MAX_REQUESTS = 100"

text \<open>\<^verbatim>\<open>Math.ceil(a / b)\<close> for integers \<open>a\<close> and \<open>b > 0\<close>.\<close>

definition Math_ceil_div :: "int \<Rightarrow> int \<Rightarrow> int" where
  "Math_ceil_div a b = - ((- a) div b)"

definition clientId :: "request \<Rightarrow> string" where
  "clientId req = ip req @ or_else (headers req ''x-app-id'') ''unknown''"

definition too_many_requests :: "int \<Rightarrow> response" where
  "too_many_requests retryAfter =
     \<lparr>status = 429, header_fields = [],
      payload = JObj
        [(''error'', JStr ''Too Many Requests''),
         (''message'', JStr ''Rate limit exceeded. Please try again later.''),
         (''retryAfter'', JNum retryAfter)]\<rparr>"

text \<open>A middleware answers (\<open>Some\<close> response) or calls \<^verbatim>\<open>next()\<close> (\<open>None\<close>).\<close>

definition rateLimit :: "clock \<Rightarrow> request \<Rightarrow> server \<Rightarrow> response option \<times> server" where
  "rateLimit clk req s =
     (case rateLimitStore s (clientId req) of
        None \<Rightarrow>
          (None, s\<lparr>rateLimitStore := (rateLimitStore s)
             (clientId req \<mapsto> \<lparr>count = 1, resetTime = now clk + RATE_LIMIT_WINDOW\<rparr>)\<rparr>)
      | Some clientData \<Rightarrow>
          if now clk > resetTime clientData then
            (None, s\<lparr>rateLimitStore := (rateLimitStore s)
               (clientId req \<mapsto> clientData\<lparr>count := 1, resetTime := now clk + RATE_LIMIT_WINDOW\<rparr>)\<rparr>)
          else if count clientData \<ge> RATE_LIMIT_MAX_REQUESTS then
            (Some (too_many_requests (Math_ceil_div (resetTime clientData - now clk) 1000)), s)
          else
            (None, s\<lparr>rateLimitStore := (rateLimitStore s)
               (clientId req \<mapsto> clientData\<lparr>count := count clientData + 1\<rparr>)\<rparr>))"

text \<open>
  The candidate key: the value of the \<^verbatim>\<open>||\<close> chain. A key that passes is also noted on
  the request for logging; nothing reads it back.
\<close>

definition apiKey_of :: "request \<Rightarrow> string option" where
  "apiKey_of req =
     (if present (headers req ''x-api-key'') then headers req ''x-api-key''
      else if present (map_option (replace_first ''Bearer '' []) (headers req ''authorization''))
      then map_option (replace_first ''Bearer '' []) (headers req ''authorization'')
      else query req ''apiKey'')"

definition unauthorized :: "string \<Rightarrow> response" where
  "unauthorized message =
     \<lparr>status = 401, header_fields = [],
      payload = JObj [(''error'', JStr ''Unauthorized''), (''message'', JStr message)]\<rparr>"

definition key_required :: response where
  "key_required = unauthorized
     ''API key is required. Provide it in X-API-Key header, Authorization header, or apiKey query parameter.''"

definition invalid_key :: response where
  "invalid_key = unauthorized ''Invalid API key provided.''"

definition validateApiKey :: "process_env \<Rightarrow> request \<Rightarrow> server \<Rightarrow> response option \<times> server" where
  "validateApiKey env req s =
     (if \<not> present (apiKey_of req) then (Some key_required, s)
      else if apiKey_of req \<notin> set (VALID_API_KEYS env) then (Some invalid_key, s)
      else (None, s))"

text \<open>The advisory check logs missing headers and always calls \<^verbatim>\<open>next()\<close>.\<close>

definition validateRequest :: "request \<Rightarrow> server \<Rightarrow> response option \<times> server" where
  "validateRequest req s = (None, s)"

section \<open>The route handlers\<close>

definition requestId :: "clock \<Rightarrow> string" where
  "requestId clk = ''req_'' @ show_int (now clk) @ ''_'' @ take 9 (drop 2 (random36 clk))"

definition as_value :: "props option \<Rightarrow> json" where
  "as_value config = (case config of None \<Rightarrow> JUndefined | Some ps \<Rightarrow> JObj ps)"

definition own_properties :: "props option \<Rightarrow> props" where
  "own_properties config = (case config of None \<Rightarrow> [] | Some ps \<Rightarrow> ps)"

definition unable_to_retrieve :: "clock \<Rightarrow> response" where
  "unable_to_retrieve clk =
     \<lparr>status = 500, header_fields = [],
      payload = JObj
        [(''error'', JStr ''Internal Server Error''),
         (''message'', JStr ''Unable to retrieve configuration''),
         (''timestamp'', JStr (isoString clk))]\<rparr>"

text \<open>
  The body shared by the four configuration handlers, inside their \<^verbatim>\<open>try\<close> block:
  the response object is the spread of the document with the metadata; the ETag needs
  \<^verbatim>\<open>Buffer.from(JSON.stringify(config))\<close>, and \<^verbatim>\<open>Buffer.from(undefined)\<close> throws, which
  the \<^verbatim>\<open>catch\<close> block answers with status 500.
\<close>

definition send_config :: "clock \<Rightarrow> props option \<Rightarrow> props \<Rightarrow> response" where
  "send_config clk config metadata =
     (case JSON_stringify (as_value config) of
        None \<Rightarrow> unable_to_retrieve clk
      | Some text \<Rightarrow>
          \<lparr>status = 200,
           header_fields =
             [(''Cache-Control'', ''public, max-age=300''),
              (''ETag'', [CHR 0x22] @ toString_base64 (Buffer_from text) @ [CHR 0x22])],
           payload = JObj (define_prop ''metadata'' (JObj metadata) (spread (own_properties config) []))\<rparr>)"

definition metadata_of :: "process_env \<Rightarrow> clock \<Rightarrow> string \<Rightarrow> props" where
  "metadata_of env clk environment =
     [(''timestamp'', JStr (isoString clk)),
      (''requestId'', JStr (requestId clk)),
      (''serverVersion'', JStr (or_else (env ''npm_package_version'') ''1.0.0'')),
      (''environment'', JStr environment)]"

text \<open>\<^verbatim>\<open>GET /v:version/config/:environment\<close>\<close>

definition versioned_environment_config ::
  "process_env \<Rightarrow> clock \<Rightarrow> string \<Rightarrow> string \<Rightarrow> server \<Rightarrow> response" where
  "versioned_environment_config env clk version environment s =
     (let cacheKey = (if environment = ''test'' then version @ ''_test'' else version);
          config = object_at s (configCache s cacheKey)
      in send_config clk config
           (metadata_of env clk environment @ [(''apiVersion'', JStr version)]))"

text \<open>\<^verbatim>\<open>GET /v:version/config\<close>\<close>

definition versioned_config :: "process_env \<Rightarrow> clock \<Rightarrow> string \<Rightarrow> server \<Rightarrow> response" where
  "versioned_config env clk version s =
     (let config = object_at s (configCache s version)
      in send_config clk config
           (metadata_of env clk (or_else (env ''NODE_ENV'') ''development'')
              @ [(''apiVersion'', JStr version)]))"

text \<open>\<^verbatim>\<open>GET /config/:environment\<close>\<close>

definition environment_config :: "process_env \<Rightarrow> clock \<Rightarrow> string \<Rightarrow> server \<Rightarrow> response" where
  "environment_config env clk environment s =
     (let config = object_at s (if environment = ''test'' then APP_CONFIG_TEST s else APP_CONFIG s)
      in send_config clk config (metadata_of env clk environment))"

text \<open>\<^verbatim>\<open>GET /config\<close>\<close>

definition default_config :: "process_env \<Rightarrow> clock \<Rightarrow> server \<Rightarrow> response" where
  "default_config env clk s =
     send_config clk (object_at s (APP_CONFIG s))
       (metadata_of env clk (or_else (env ''NODE_ENV'') ''development''))"

text \<open>
  \<^verbatim>\<open>GET /config/version\<close>: no \<^verbatim>\<open>try\<close> block here, so reading \<^verbatim>\<open>APP_CONFIG.version\<close>
  of \<^verbatim>\<open>undefined\<close> would leave the handler as a thrown TypeError.
\<close>

definition config_version :: "clock \<Rightarrow> server \<Rightarrow> outcome" where
  "config_version clk s =
     (case object_at s (APP_CONFIG s) of
        None \<Rightarrow> Threw ''TypeError''
      | Some doc \<Rightarrow>
          (case JSON_stringify (JObj doc) of
             None \<Rightarrow> Threw ''TypeError''
           | Some text \<Rightarrow>
               Responded
                 \<lparr>status = 200, header_fields = [],
                  payload = JObj
                    [(''version'', get_prop doc ''version''),
                     (''timestamp'', JStr (isoString clk)),
                     (''checksum'', JStr (take 16 (toString_base64 (Buffer_from text))))]\<rparr>))"

definition forbidden :: response where
  "forbidden =
     \<lparr>status = 403, header_fields = [],
      payload = JObj [(''error'', JStr ''Forbidden''), (''message'', JStr ''Admin access required'')]\<rparr>"

definition bad_request :: response where
  "bad_request =
     \<lparr>status = 400, header_fields = [],
      payload = JObj [(''error'', JStr ''Bad Request''), (''message'', JStr ''Features object is required'')]\<rparr>"

definition features_updated :: "clock \<Rightarrow> json \<Rightarrow> response" where
  "features_updated clk features =
     \<lparr>status = 200, header_fields = [],
      payload = JObj
        [(''message'', JStr ''Feature flags updated successfully''),
         (''features'', features),
         (''timestamp'', JStr (isoString clk))]\<rparr>"

text \<open>
  \<^verbatim>\<open>Object.assign\<close> on a string target works on a wrapper object that is dropped
  afterwards; the wrapper refuses a write to one of its index properties or to
  \<^verbatim>\<open>length\<close> with a TypeError.
\<close>

definition string_target_rejects :: "string \<Rightarrow> props \<Rightarrow> bool" where
  "string_target_rejects t src =
     list_ex (\<lambda>(k, v). k = ''length'' \<or>
        (case array_index k of None \<Rightarrow> False | Some i \<Rightarrow> i < length t)) src"

text \<open>The mutation in place of the \<^verbatim>\<open>features\<close> object of the document at \<open>a\<close>.\<close>

definition set_features :: "server \<Rightarrow> addr \<Rightarrow> props \<Rightarrow> server" where
  "set_features s a fs =
     s\<lparr>heap := (heap s)[a := replace_own ''features'' (JObj fs) (heap s ! a)]\<rparr>"

text \<open>\<^verbatim>\<open>POST /config/features\<close>\<close>

definition update_features ::
  "process_env \<Rightarrow> clock \<Rightarrow> request \<Rightarrow> server \<Rightarrow> outcome \<times> server" where
  "update_features env clk req s =
     (let adminKey = headers req ''x-admin-key'' in
      if adminKey \<noteq> env ''ADMIN_API_KEY'' then (Responded forbidden, s)
      else
        let features = get_prop (body req) ''features'' in
        if \<not> truthy features \<or> typeof features \<noteq> ''object'' then (Responded bad_request, s)
        else
          (case features of
             JObj src \<Rightarrow>
               (case APP_CONFIG s of
                  None \<Rightarrow> (Threw ''TypeError'', s)
                | Some a \<Rightarrow>
                    (case deref s a of
                       None \<Rightarrow> (Threw ''TypeError'', s)
                     | Some doc \<Rightarrow>
                         (case get_prop doc ''features'' of
                            JObj target \<Rightarrow>
                              (Responded (features_updated clk (JObj (Object_assign target src))),
                               set_features s a (Object_assign target src))
                          | JUndefined \<Rightarrow> (Threw ''TypeError'', s)
                          | JNull \<Rightarrow> (Threw ''TypeError'', s)
                          | JStr t \<Rightarrow>
                              if string_target_rejects t src then (Threw ''TypeError'', s)
                              else (Responded (features_updated clk (JStr t)), s)
                          | JBool b \<Rightarrow> (Responded (features_updated clk (JBool b)), s)
                          | JNum n \<Rightarrow> (Responded (features_updated clk (JNum n)), s))))
           | _ \<Rightarrow> (Responded bad_request, s)))"

section \<open>The router\<close>

text \<open>
  Route paths are matched one segment at a time, literals without regard to case
  (the router's default), a parameter taking one non-empty segment. The routes are
  tried in the order of their registration and the first one that matches handles
  the request: none of the handlers passes the request on.
\<close>

datatype endpoint =
    VersionedEnvironment string string
  | Versioned string
  | LegacyEnvironment string
  | Legacy
  | ConfigVersion
  | ConfigFeatures

definition literal :: "string \<Rightarrow> string \<Rightarrow> bool" where
  "literal l seg = (toLowerCase seg = toLowerCase l)"

text \<open>The segment \<^verbatim>\<open>v:version\<close>: the letter, then a non-empty parameter.\<close>

definition version_param :: "string \<Rightarrow> string option" where
  "version_param seg =
     (case seg of
        [] \<Rightarrow> None
      | c # cs \<Rightarrow> if literal ''v'' [c] \<and> cs \<noteq> [] then Some cs else None)"

fun match_versioned_environment :: "string list \<Rightarrow> endpoint option" where
  "match_versioned_environment [a, b, c] =
     (case version_param a of
        None \<Rightarrow> None
      | Some version \<Rightarrow>
          if literal ''config'' b \<and> c \<noteq> [] then Some (VersionedEnvironment version c) else None)"
| "match_versioned_environment p = None"

fun match_versioned :: "string list \<Rightarrow> endpoint option" where
  "match_versioned [a, b] =
     (case version_param a of
        None \<Rightarrow> None
      | Some version \<Rightarrow> if literal ''config'' b then Some (Versioned version) else None)"
| "match_versioned p = None"

fun match_environment :: "string list \<Rightarrow> endpoint option" where
  "match_environment [a, b] =
     (if literal ''config'' a \<and> b \<noteq> [] then Some (LegacyEnvironment b) else None)"
| "match_environment p = None"

fun match_config :: "string list \<Rightarrow> endpoint option" where
  "match_config [a] = (if literal ''config'' a then Some Legacy else None)"
| "match_config p = None"

fun match_config_version :: "string list \<Rightarrow> endpoint option" where
  "match_config_version [a, b] =
     (if literal ''config'' a \<and> literal ''version'' b then Some ConfigVersion else None)"
| "match_config_version p = None"

fun match_config_features :: "string list \<Rightarrow> endpoint option" where
  "match_config_features [a, b] =
     (if literal ''config'' a \<and> literal ''features'' b then Some ConfigFeatures else None)"
| "match_config_features p = None"

definition routes :: "(http_method \<times> (string list \<Rightarrow> endpoint option)) list" where
  "routes =
     [(GET, match_versioned_environment),
      (GET, match_versioned),
      (GET, match_environment),
      (GET, match_config),
      (GET, match_config_version),
      (POST, match_config_features)]"

fun find_route ::
  "(http_method \<times> (string list \<Rightarrow> endpoint option)) list \<Rightarrow> http_method \<Rightarrow> string list \<Rightarrow> endpoint option" where
  "find_route [] m p = None"
| "find_route ((rm, pattern) # rs) m p =
     (if rm = m then (case pattern p of Some e \<Rightarrow> Some e | None \<Rightarrow> find_route rs m p)
      else find_route rs m p)"

text \<open>The middlewares registered in front of each handler.\<close>

fun middlewares ::
  "process_env \<Rightarrow> clock \<Rightarrow> request \<Rightarrow> endpoint \<Rightarrow> (server \<Rightarrow> response option \<times> server) list" where
  "middlewares env clk req ConfigVersion = [rateLimit clk req, validateApiKey env req]"
| "middlewares env clk req ConfigFeatures = [validateApiKey env req]"
| "middlewares env clk req e = [rateLimit clk req, validateApiKey env req, validateRequest req]"

fun handler :: "process_env \<Rightarrow> clock \<Rightarrow> request \<Rightarrow> endpoint \<Rightarrow> server \<Rightarrow> outcome \<times> server" where
  "handler env clk req (VersionedEnvironment version environment) s =
     (Responded (versioned_environment_config env clk version environment s), s)"
| "handler env clk req (Versioned version) s = (Responded (versioned_config env clk version s), s)"
| "handler env clk req (LegacyEnvironment environment) s =
     (Responded (environment_config env clk environment s), s)"
| "handler env clk req Legacy s = (Responded (default_config env clk s), s)"
| "handler env clk req ConfigVersion s = (config_version clk s, s)"
| "handler env clk req ConfigFeatures s = update_features env clk req s"

fun run_stack ::
  "(server \<Rightarrow> response option \<times> server) list \<Rightarrow> (server \<Rightarrow> outcome \<times> server) \<Rightarrow> server
     \<Rightarrow> outcome \<times> server" where
  "run_stack [] h s = h s"
| "run_stack (m # ms) h s =
     (case m s of
        (Some r, s') \<Rightarrow> (Responded r, s')
      | (None, s') \<Rightarrow> run_stack ms h s')"

definition router :: "process_env \<Rightarrow> clock \<Rightarrow> request \<Rightarrow> server \<Rightarrow> outcome \<times> server" where
  "router env clk req s =
     (case find_route routes (httpMethod req) (path req) of
        None \<Rightarrow> (NoRoute, s)
      | Some e \<Rightarrow> run_stack (middlewares env clk req e) (handler env clk req e) s)"

section \<open>Observations\<close>

text \<open>A field of a JSON body.\<close>

definition field :: "json \<Rightarrow> string \<Rightarrow> json" where
  "field v k = (case v of JObj ps \<Rightarrow> get_prop ps k | _ \<Rightarrow> JUndefined)"

text \<open>The status of the response, when the router answered.\<close>

definition status_of :: "outcome \<Rightarrow> nat option" where
  "status_of out = (case out of Responded r \<Rightarrow> Some (status r) | _ \<Rightarrow> None)"

text \<open>The value of \<^verbatim>\<open>APP_CONFIG.features\<close> (\<^verbatim>\<open>undefined\<close> also when nothing can be read).\<close>

definition live_features :: "server \<Rightarrow> json" where
  "live_features s =
     (case object_at s (APP_CONFIG s) of
        None \<Rightarrow> JUndefined
      | Some doc \<Rightarrow> get_prop doc ''features'')"

text \<open>
  A run of the rate limiter over a sequence of requests, each with its clock: the
  clocks of the requests of one client, and the answers the limiter gives them.
\<close>

fun clocks_of :: "string \<Rightarrow> (clock \<times> request) list \<Rightarrow> clock list" where
  "clocks_of cid [] = []"
| "clocks_of cid ((clk, req) # rest) =
     (if clientId req = cid then clk # clocks_of cid rest else clocks_of cid rest)"

fun answers_to :: "string \<Rightarrow> (clock \<times> request) list \<Rightarrow> server \<Rightarrow> response option list" where
  "answers_to cid [] s = []"
| "answers_to cid ((clk, req) # rest) s =
     (case rateLimit clk req s of
        (r, s') \<Rightarrow> if clientId req = cid then r # answers_to cid rest s' else answers_to cid rest s')"




section \<open>The fixed-window rate limiter\<close>


lemma length_answers_to: "length (answers_to cid reqs s) = length (clocks_of cid reqs)"
  by (induction cid reqs s rule: answers_to.induct) (auto split: prod.split)









text \<open>
  C4. When a client's entry exists and the request arrives strictly after the entry's
  \<open>resetTime\<close>, the request passes and the entry becomes \<open>count = 1\<close>,
  \<open>resetTime = now + RATE_LIMIT_WINDOW\<close>, whatever the count was.
\<close>

theorem window_elapsed_resets:
  assumes "rateLimitStore s (clientId req) = Some e"
    and "now clk > resetTime e"
  shows "rateLimit clk req s =
     (None, s\<lparr>rateLimitStore := (rateLimitStore s)
        (clientId req \<mapsto> \<lparr>count = 1, resetTime = now clk + RATE_LIMIT_WINDOW\<rparr>)\<rparr>)"
proof -
  have eq: "e\<lparr>count := Suc 0, resetTime := x\<rparr> = \<lparr>count = Suc 0, resetTime = x\<rparr>" for x
    by (cases e) simp
  show ?thesis using assms by (simp add: rateLimit_def eq)
qed

theorem window_elapsed_resets_witness:
  "rateLimit \<lparr>now = 60001, isoString = [], random36 = []\<rparr>
     \<lparr>httpMethod = GET, path = [''config''], ip = ''1.2.3.4'', headers = Map.empty,
      query = Map.empty, body = []\<rparr>
     (empty_server\<lparr>rateLimitStore := [''1.2.3.4unknown'' \<mapsto> \<lparr>count = 100, resetTime = 60000\<rparr>]\<rparr>)
   = (None,
      empty_server\<lparr>rateLimitStore := [''1.2.3.4unknown'' \<mapsto> \<lparr>count = 1, resetTime = 120001\<rparr>]\<rparr>)"
  using window_elapsed_resets
    [of "empty_server\<lparr>rateLimitStore := [''1.2.3.4unknown'' \<mapsto> \<lparr>count = 100, resetTime = 60000\<rparr>]\<rparr>"
        "\<lparr>httpMethod = GET, path = [''config''], ip = ''1.2.3.4'', headers = Map.empty,
          query = Map.empty, body = []\<rparr>"
        "\<lparr>count = 100, resetTime = 60000\<rparr>"
        "\<lparr>now = 60001, isoString = [], random36 = []\<rparr>"]
  by (simp add: clientId_def or_else_def RATE_LIMIT_WINDOW_def)

section \<open>Own properties as a map\<close>

lemma map_of_replace_own:
  "map_of (replace_own k v ps) k' = (if k' = k \<and> has_own ps k then Some v else map_of ps k')"
  by (induction ps) (auto simp: has_own_def)









section \<open>The feature-flag merge\<close>

lemma get_prop_replace_own:
  "has_own ps k \<Longrightarrow> get_prop (replace_own k v ps) k = v"
  by (simp add: get_prop_def map_of_replace_own)

lemma get_prop_has_own: "get_prop ps k = JObj t \<Longrightarrow> has_own ps k"
  by (auto simp: get_prop_def has_own_def split: option.splits)

lemma live_features_object:
  assumes "live_features s = JObj target"
  obtains a doc where "APP_CONFIG s = Some a" and "a < length (heap s)"
    and "heap s ! a = doc" and "get_prop doc ''features'' = JObj target"
  using assms
  by (auto simp: live_features_def object_at_def deref_def split: option.splits if_splits)

lemma update_features_merge:
  assumes admin: "headers req ''x-admin-key'' = env ''ADMIN_API_KEY''"
    and src: "get_prop (body req) ''features'' = JObj src"
    and live: "live_features s = JObj target"
  shows "fst (update_features env clk req s)
           = Responded (features_updated clk (JObj (Object_assign target src)))"
    and "live_features (snd (update_features env clk req s)) = JObj (Object_assign target src)"
    and "APP_CONFIG (snd (update_features env clk req s)) = APP_CONFIG s"
    and "configCache (snd (update_features env clk req s)) = configCache s"
proof -
  from live obtain a doc where a: "APP_CONFIG s = Some a" "a < length (heap s)"
    "heap s ! a = doc" "get_prop doc ''features'' = JObj target"
    by (rule live_features_object)
  have step: "update_features env clk req s =
      (Responded (features_updated clk (JObj (Object_assign target src))),
       set_features s a (Object_assign target src))"
    using admin src a by (simp add: update_features_def deref_def)
  show "fst (update_features env clk req s)
           = Responded (features_updated clk (JObj (Object_assign target src)))"
    using step by simp
  show "live_features (snd (update_features env clk req s)) = JObj (Object_assign target src)"
    using step a get_prop_has_own[OF a(4)]
    by (simp add: live_features_def object_at_def deref_def set_features_def get_prop_replace_own)
  show "APP_CONFIG (snd (update_features env clk req s)) = APP_CONFIG s"
    using step by (simp add: set_features_def)
  show "configCache (snd (update_features env clk req s)) = configCache s"
    using step by (simp add: set_features_def)
qed



section \<open>The gate in front of the handlers\<close>

lemma router_gate:
  assumes "find_route routes (httpMethod req) (path req) = Some e"
  shows "router env clk req s =
     (if e = ConfigFeatures then
        (if \<not> present (apiKey_of req) then (Responded key_required, s)
         else if apiKey_of req \<notin> set (VALID_API_KEYS env) then (Responded invalid_key, s)
         else update_features env clk req s)
      else
        (case fst (rateLimit clk req s) of
           Some r \<Rightarrow> (Responded r, snd (rateLimit clk req s))
         | None \<Rightarrow>
             if \<not> present (apiKey_of req) then (Responded key_required, snd (rateLimit clk req s))
             else if apiKey_of req \<notin> set (VALID_API_KEYS env)
             then (Responded invalid_key, snd (rateLimit clk req s))
             else handler env clk req e (snd (rateLimit clk req s))))"
  using assms
  by (cases e) (simp_all add: router_def validateApiKey_def validateRequest_def split: prod.split option.split)







section \<open>The admin check\<close>

lemma update_features_403:
  "(status_of (fst (update_features env clk req s)) = Some 403)
     = (headers req ''x-admin-key'' \<noteq> env ''ADMIN_API_KEY'')"
  by (auto simp: update_features_def status_of_def Let_def forbidden_def bad_request_def
      features_updated_def split: json.splits option.splits if_splits)

text \<open>
  C10. On the features-update route, for a request with a valid API key, the answer is
  403 exactly when the \<^verbatim>\<open>x-admin-key\<close> header and \<^verbatim>\<open>ADMIN_API_KEY\<close> differ under strict
  equality, both read as possibly \<^verbatim>\<open>undefined\<close>. In particular, with the secret unset
  and the header absent the check passes: a request carrying a \<^verbatim>\<open>features\<close> object is
  answered 200 with the merged flags, and the merge is in the live document.
\<close>

theorem admin_check_strict_equality:
  assumes "find_route routes (httpMethod req) (path req) = Some ConfigFeatures"
    and "present (apiKey_of req)"
    and "apiKey_of req \<in> set (VALID_API_KEYS env)"
  shows "(status_of (fst (router env clk req s)) = Some 403)
           = (headers req ''x-admin-key'' \<noteq> env ''ADMIN_API_KEY'')
     \<and> (env ''ADMIN_API_KEY'' = None \<and> headers req ''x-admin-key'' = None
          \<and> get_prop (body req) ''features'' = JObj src \<and> live_features s = JObj target
        \<longrightarrow> fst (router env clk req s)
              = Responded (features_updated clk (JObj (Object_assign target src)))
          \<and> status_of (fst (router env clk req s)) = Some 200
          \<and> live_features (snd (router env clk req s)) = JObj (Object_assign target src))"
proof -
  have r: "router env clk req s = update_features env clk req s"
    using router_gate[OF assms(1)] assms(2,3) by simp
  have "status_of (Responded (features_updated clk v)) = Some 200" for v
    by (simp add: status_of_def features_updated_def)
  then show ?thesis
    using r update_features_403[of env clk req s]
      update_features_merge(1,2)[where env=env and req=req and clk=clk and s=s and src=src
        and target=target]
    by auto
qed

theorem admin_check_strict_equality_witness:
  "status_of (fst (router [''API_KEY_WEB'' \<mapsto> ''web-key'']
       \<lparr>now = 1000, isoString = ''T1'', random36 = []\<rparr>
       \<lparr>httpMethod = POST, path = [''config'', ''features''], ip = ''1.2.3.4'',
        headers = [''x-api-key'' \<mapsto> ''web-key''], query = Map.empty,
        body = [(''features'', JObj [(''darkMode'', JBool True)])]\<rparr>
       (startup Map.empty [''API_KEY_WEB'' \<mapsto> ''web-key'']))) = Some 200
   \<and> live_features (snd (router [''API_KEY_WEB'' \<mapsto> ''web-key'']
       \<lparr>now = 1000, isoString = ''T1'', random36 = []\<rparr>
       \<lparr>httpMethod = POST, path = [''config'', ''features''], ip = ''1.2.3.4'',
        headers = [''x-api-key'' \<mapsto> ''web-key''], query = Map.empty,
        body = [(''features'', JObj [(''darkMode'', JBool True)])]\<rparr>
       (startup Map.empty [''API_KEY_WEB'' \<mapsto> ''web-key''])))
     = JObj [(''darkMode'', JBool True), (''analytics'', JBool True), (''newCheckout'', JBool False)]"
proof -
  let ?env = "[''API_KEY_WEB'' \<mapsto> ''web-key'']"
  let ?c = "\<lparr>now = 1000, isoString = ''T1'', random36 = []\<rparr>"
  let ?r = "\<lparr>httpMethod = POST, path = [''config'', ''features''], ip = ''1.2.3.4'',
        headers = [''x-api-key'' \<mapsto> ''web-key''], query = Map.empty,
        body = [(''features'', JObj [(''darkMode'', JBool True)])]\<rparr>"
  let ?s = "startup Map.empty ?env"
  let ?target = "[(''darkMode'', JBool False), (''analytics'', JBool True), (''newCheckout'', JBool False)]"
  have h1: "find_route routes (httpMethod ?r) (path ?r) = Some ConfigFeatures" by code_simp
  have h2: "present (apiKey_of ?r)" by code_simp
  have h3: "apiKey_of ?r \<in> set (VALID_API_KEYS ?env)" by code_simp
  have h4: "?env ''ADMIN_API_KEY'' = None" "headers ?r ''x-admin-key'' = None" by simp_all
  have h5: "get_prop (body ?r) ''features'' = JObj [(''darkMode'', JBool True)]"
    by (simp add: get_prop_def)
  have h6: "live_features ?s = JObj ?target" by code_simp
  have ev: "Object_assign ?target [(''darkMode'', JBool True)]
      = [(''darkMode'', JBool True), (''analytics'', JBool True), (''newCheckout'', JBool False)]"
    by code_simp
  show ?thesis
    using admin_check_strict_equality[where env="?env" and req="?r" and clk="?c" and s="?s"
        and src="[(''darkMode'', JBool True)]" and target="?target", OF h1 h2 h3] h4 h5 h6 ev
    by (simp add: status_of_def features_updated_def)
qed

text \<open>
  C6. The spec has every request with a valid API key whose admin key is missing or
  wrong answered 403. With \<^verbatim>\<open>ADMIN_API_KEY\<close> unset, a request with a valid API key and
  no \<^verbatim>\<open>x-admin-key\<close> header is admitted: it is answered 200 and its flags are merged.
\<close>

theorem unset_admin_secret_admits_missing_admin_key:
  "fst (router [''API_KEY_IOS'' \<mapsto> ''ios-key'']
       \<lparr>now = 1000, isoString = ''T1'', random36 = []\<rparr>
       \<lparr>httpMethod = POST, path = [''config'', ''features''], ip = ''1.2.3.4'',
        headers = [''x-api-key'' \<mapsto> ''ios-key''], query = Map.empty,
        body = [(''features'', JObj [(''newCheckout'', JBool True)])]\<rparr>
       (startup Map.empty [''API_KEY_IOS'' \<mapsto> ''ios-key'']))
   = Responded
       \<lparr>status = 200, header_fields = [],
        payload = JObj
          [(''message'', JStr ''Feature flags updated successfully''),
           (''features'', JObj [(''darkMode'', JBool False), (''analytics'', JBool True),
                               (''newCheckout'', JBool True)]),
           (''timestamp'', JStr ''T1'')]\<rparr>"
  by code_simp

section \<open>The configuration cache\<close>




lemma getAppConfig_state:
  "configCache (snd (getAppConfig JSON_parse env v e s)) = configCache s
   \<and> rateLimitStore (snd (getAppConfig JSON_parse env v e s)) = rateLimitStore s
   \<and> (\<exists>new. heap (snd (getAppConfig JSON_parse env v e s)) = heap s @ new)"
  by (simp add: getAppConfig_def alloc_def split: option.split)


lemma cache_version_unfold:
  "cache_version JSON_parse env v s =
     (let r1 = getAppConfig JSON_parse env v [] s;
          s2 = (snd r1)\<lparr>configCache := (configCache (snd r1))(v \<mapsto> fst r1)\<rparr>;
          r2 = getAppConfig JSON_parse env v ''test'' s2
      in (snd r2)\<lparr>configCache := (configCache (snd r2))(v @ ''_test'' \<mapsto> fst r2)\<rparr>)"
  by (simp add: cache_version_def Let_def case_prod_beta)

lemma cache_version_cache:
  "configCache (cache_version JSON_parse env v s) =
     (configCache s)
       (v \<mapsto> fst (getAppConfig JSON_parse env v [] s),
        v @ ''_test'' \<mapsto>
          fst (getAppConfig JSON_parse env v ''test''
            ((snd (getAppConfig JSON_parse env v [] s))
               \<lparr>configCache := (configCache s)(v \<mapsto> fst (getAppConfig JSON_parse env v [] s))\<rparr>)))"
  using getAppConfig_state[of JSON_parse env v "[]" s]
  by (simp add: cache_version_unfold Let_def getAppConfig_state)

lemma cache_version_frame:
  "k \<noteq> v \<Longrightarrow> k \<noteq> v @ ''_test'' \<Longrightarrow>
     configCache (cache_version JSON_parse env v s) k = configCache s k"
  by (simp add: cache_version_cache)








lemma fold_cache_version_frame:
  assumes "\<forall>w \<in> set vs. k \<noteq> w \<and> k \<noteq> w @ ''_test''"
  shows "configCache (fold (cache_version JSON_parse env) vs s) k = configCache s k"
  using assms by (induction vs arbitrary: s) (simp_all add: cache_version_frame)



lemma startup_cache:
  "configCache (startup JSON_parse env) = configCache (fold (cache_version JSON_parse env) declared_versions empty_server)"
  "APP_CONFIG (startup JSON_parse env) = configCache (startup JSON_parse env) []"
  "APP_CONFIG_TEST (startup JSON_parse env) = configCache (startup JSON_parse env) ''_test''"
  by (simp_all add: startup_def Let_def)






lemma startup_cache_miss:
  assumes "version \<notin> set declared_versions"
    and "\<forall>v \<in> set declared_versions. version \<noteq> v @ ''_test''"
  shows "configCache (startup JSON_parse env) version = None"
proof -
  have "configCache (fold (cache_version JSON_parse env) declared_versions empty_server) version
      = configCache empty_server version"
    using assms by (intro fold_cache_version_frame) auto
  then show ?thesis by (simp add: startup_cache(1) empty_server_def)
qed

lemma rateLimit_configCache:
  "configCache (snd (rateLimit clk req s)) = configCache s"
  by (simp add: rateLimit_def split: option.split)

lemma find_route_versioned:
  "version \<noteq> [] \<Longrightarrow>
     find_route routes GET [CHR ''v'' # version, ''config''] = Some (Versioned version)"
  by (simp add: routes_def version_param_def literal_def toLowerCase_def lower_char_def)

lemma find_route_versioned_environment:
  "version \<noteq> [] \<Longrightarrow> environment \<noteq> [] \<Longrightarrow>
     find_route routes GET [CHR ''v'' # version, ''config'', environment]
       = Some (VersionedEnvironment version environment)"
  by (simp add: routes_def version_param_def literal_def toLowerCase_def lower_char_def)

lemma cache_miss_answer:
  assumes "configCache s version = None"
  shows "versioned_config env clk version s = unable_to_retrieve clk"
  using assms by (simp add: versioned_config_def object_at_def send_config_def as_value_def)

lemma cache_miss_answer_environment:
  assumes "configCache s version = None" and "configCache s (version @ ''_test'') = None"
  shows "versioned_environment_config env clk version environment s = unable_to_retrieve clk"
  using assms
  by (simp add: versioned_environment_config_def object_at_def send_config_def as_value_def)







section \<open>Route dispatch\<close>

text \<open>
  C1. The spec has a version outside the declared ones degrade to the unversioned
  default, without an error. The two versioned handlers read the cache with the
  version as the key (with \<^verbatim>\<open>_test\<close> appended for the environment \<^verbatim>\<open>test\<close>) and have no
  fallback: for a version that is no key of the cache the document is \<^verbatim>\<open>undefined\<close>,
  building the ETag throws, and a request that passed the gate is answered with the
  500 of the \<^verbatim>\<open>catch\<close> block.
\<close>

theorem undeclared_version_answers_500:
  assumes "version \<noteq> []"
    and "version \<notin> set declared_versions"
    and "\<forall>v \<in> set declared_versions. version \<noteq> v @ ''_test''"
    and "configCache s = configCache (startup JSON_parse env0)"
    and "httpMethod req = GET"
    and "path req = [CHR ''v'' # version, ''config'']
         \<or> environment \<noteq> [] \<and> path req = [CHR ''v'' # version, ''config'', environment]"
    and "fst (rateLimit clk req s) = None"
    and "present (apiKey_of req)"
    and "apiKey_of req \<in> set (VALID_API_KEYS env)"
  shows "fst (router env clk req s) = Responded (unable_to_retrieve clk)
     \<and> status (unable_to_retrieve clk) = 500"
proof -
  let ?s' = "snd (rateLimit clk req s)"
  have miss: "configCache ?s' version = None"
    using startup_cache_miss[OF assms(2,3)] assms(4) by (simp add: rateLimit_configCache)
  have "version @ ''_test'' \<notin> set declared_versions"
    by (auto simp: declared_versions_def)
  moreover have "\<forall>v \<in> set declared_versions. version @ ''_test'' \<noteq> v @ ''_test''"
    using assms(2) by auto
  ultimately have miss_test: "configCache ?s' (version @ ''_test'') = None"
    using startup_cache_miss assms(4) by (simp add: rateLimit_configCache)
  from assms(6) have "fst (router env clk req s) = Responded (unable_to_retrieve clk)"
  proof
    assume p: "path req = [CHR ''v'' # version, ''config'']"
    have route: "find_route routes (httpMethod req) (path req) = Some (Versioned version)"
      using assms(1,5) p by (simp add: find_route_versioned)
    show ?thesis
      using router_gate[OF route, of env clk s] assms(7,8,9) cache_miss_answer[OF miss]
      by simp
  next
    assume p: "environment \<noteq> [] \<and> path req = [CHR ''v'' # version, ''config'', environment]"
    have route: "find_route routes (httpMethod req) (path req)
        = Some (VersionedEnvironment version environment)"
      using assms(1,5) p by (simp add: find_route_versioned_environment)
    show ?thesis
      using router_gate[OF route, of env clk s] assms(7,8,9)
        cache_miss_answer_environment[OF miss miss_test]
      by simp
  qed
  then show ?thesis by (simp add: unable_to_retrieve_def)
qed

theorem undeclared_version_answers_500_witness:
  "fst (router [''API_KEY_IOS'' \<mapsto> ''ios-key'']
       \<lparr>now = 1000, isoString = ''T1'', random36 = ''0.4fzyo82mvyr''\<rparr>
       \<lparr>httpMethod = GET, path = [''v9'', ''config''], ip = ''1.2.3.4'',
        headers = [''x-api-key'' \<mapsto> ''ios-key''], query = Map.empty, body = []\<rparr>
       (startup Map.empty [''API_KEY_IOS'' \<mapsto> ''ios-key'']))
   = Responded
       \<lparr>status = 500, header_fields = [],
        payload = JObj
          [(''error'', JStr ''Internal Server Error''),
           (''message'', JStr ''Unable to retrieve configuration''),
           (''timestamp'', JStr ''T1'')]\<rparr>"
proof -
  let ?env = "[''API_KEY_IOS'' \<mapsto> ''ios-key'']"
  let ?c = "\<lparr>now = 1000, isoString = ''T1'', random36 = ''0.4fzyo82mvyr''\<rparr>"
  let ?r = "\<lparr>httpMethod = GET, path = [''v9'', ''config''], ip = ''1.2.3.4'',
        headers = [''x-api-key'' \<mapsto> ''ios-key''], query = Map.empty, body = []\<rparr>"
  let ?s = "startup Map.empty ?env"
  have h1: "''9'' \<noteq> []" by simp
  have h2: "''9'' \<notin> set declared_versions" by (simp add: declared_versions_def)
  have h3: "\<forall>v \<in> set declared_versions. ''9'' \<noteq> v @ ''_test''"
    by (simp add: declared_versions_def)
  have h5: "httpMethod ?r = GET" by simp
  have h6: "path ?r = [CHR ''v'' # ''9'', ''config'']
      \<or> ''production'' \<noteq> [] \<and> path ?r = [CHR ''v'' # ''9'', ''config'', ''production'']" by simp
  have h7: "fst (rateLimit ?c ?r ?s) = None" by code_simp
  have h8: "present (apiKey_of ?r)" by code_simp
  have h9: "apiKey_of ?r \<in> set (VALID_API_KEYS ?env)" by code_simp
  show ?thesis
    using undeclared_version_answers_500[OF h1 h2 h3 refl h5 h6 h7 h8 h9]
    by (simp add: unable_to_retrieve_def)
qed

lemma send_config_shape:
  "status (send_config clk config metadata) = 200
     \<Longrightarrow> header_fields (send_config clk config metadata) \<noteq> []"
  by (simp add: send_config_def unable_to_retrieve_def split: option.splits)

lemma config_version_shape:
  "config_version clk s = Responded r \<Longrightarrow> status r = 200 \<and> header_fields r = []"
  by (auto simp: config_version_def split: option.splits)

lemma config_version_not_config:
  "config_version clk s \<noteq> Responded (environment_config env clk environment s)"
proof
  assume "config_version clk s = Responded (environment_config env clk environment s)"
  then have "status (environment_config env clk environment s) = 200
      \<and> header_fields (environment_config env clk environment s) = []"
    by (rule config_version_shape)
  then show False
    using send_config_shape[of clk
        "object_at s (if environment = ''test'' then APP_CONFIG_TEST s else APP_CONFIG s)"
        "metadata_of env clk environment"]
    by (simp add: environment_config_def)
qed

text \<open>
  C2. The spec has \<^verbatim>\<open>GET /config/version\<close> answered by the version handler. The route
  \<^verbatim>\<open>/config/:environment\<close> is registered before it and matches the path with the
  environment \<^verbatim>\<open>version\<close>: a request that passed the gate is answered by the
  environment handler, and that answer is never the one of the version handler.
\<close>

theorem version_route_is_shadowed:
  assumes "httpMethod req = GET"
    and "path req = [''config'', ''version'']"
    and "fst (rateLimit clk req s) = None"
    and "present (apiKey_of req)"
    and "apiKey_of req \<in> set (VALID_API_KEYS env)"
  shows "find_route routes (httpMethod req) (path req) = Some (LegacyEnvironment ''version'')
     \<and> fst (router env clk req s)
         = Responded (environment_config env clk ''version'' (snd (rateLimit clk req s)))
     \<and> fst (router env clk req s) \<noteq> config_version clk (snd (rateLimit clk req s))"
proof -
  have "find_route routes GET [''config'', ''version''] = Some (LegacyEnvironment ''version'')"
    by code_simp
  then have route: "find_route routes (httpMethod req) (path req) = Some (LegacyEnvironment ''version'')"
    using assms(1,2) by simp
  have "fst (router env clk req s)
         = Responded (environment_config env clk ''version'' (snd (rateLimit clk req s)))"
    using router_gate[OF route, of env clk s] assms(3,4,5) by simp
  then show ?thesis
    using route config_version_not_config[of clk "snd (rateLimit clk req s)" env "''version''"]
    by metis
qed

lemma environment_config_payload:
  assumes "environment \<noteq> ''test''" and "object_at s (APP_CONFIG s) = Some doc"
  shows "payload (environment_config env clk environment s)
     = JObj (define_prop ''metadata'' (JObj (metadata_of env clk environment)) (spread doc []))"
  using assms
  by (simp add: environment_config_def send_config_def as_value_def own_properties_def)

theorem version_route_is_shadowed_witness:
  "fst (router [''API_KEY_IOS'' \<mapsto> ''ios-key'']
       \<lparr>now = 1000, isoString = ''T1'', random36 = ''0.4fzyo82mvyr''\<rparr>
       \<lparr>httpMethod = GET, path = [''config'', ''version''], ip = ''1.2.3.4'',
        headers = [''x-api-key'' \<mapsto> ''ios-key''], query = Map.empty, body = []\<rparr>
       (startup Map.empty [''API_KEY_IOS'' \<mapsto> ''ios-key'']))
   = Responded (environment_config [''API_KEY_IOS'' \<mapsto> ''ios-key'']
       \<lparr>now = 1000, isoString = ''T1'', random36 = ''0.4fzyo82mvyr''\<rparr> ''version''
       (snd (rateLimit \<lparr>now = 1000, isoString = ''T1'', random36 = ''0.4fzyo82mvyr''\<rparr>
          \<lparr>httpMethod = GET, path = [''config'', ''version''], ip = ''1.2.3.4'',
           headers = [''x-api-key'' \<mapsto> ''ios-key''], query = Map.empty, body = []\<rparr>
          (startup Map.empty [''API_KEY_IOS'' \<mapsto> ''ios-key'']))))
   \<and> field (payload (environment_config [''API_KEY_IOS'' \<mapsto> ''ios-key'']
       \<lparr>now = 1000, isoString = ''T1'', random36 = ''0.4fzyo82mvyr''\<rparr> ''version''
       (snd (rateLimit \<lparr>now = 1000, isoString = ''T1'', random36 = ''0.4fzyo82mvyr''\<rparr>
          \<lparr>httpMethod = GET, path = [''config'', ''version''], ip = ''1.2.3.4'',
           headers = [''x-api-key'' \<mapsto> ''ios-key''], query = Map.empty, body = []\<rparr>
          (startup Map.empty [''API_KEY_IOS'' \<mapsto> ''ios-key'']))))) ''checksum'' = JUndefined
   \<and> field (payload (environment_config [''API_KEY_IOS'' \<mapsto> ''ios-key'']
       \<lparr>now = 1000, isoString = ''T1'', random36 = ''0.4fzyo82mvyr''\<rparr> ''version''
       (snd (rateLimit \<lparr>now = 1000, isoString = ''T1'', random36 = ''0.4fzyo82mvyr''\<rparr>
          \<lparr>httpMethod = GET, path = [''config'', ''version''], ip = ''1.2.3.4'',
           headers = [''x-api-key'' \<mapsto> ''ios-key''], query = Map.empty, body = []\<rparr>
          (startup Map.empty [''API_KEY_IOS'' \<mapsto> ''ios-key'']))))) ''metadata''
     = JObj [(''timestamp'', JStr ''T1''), (''requestId'', JStr ''req_1000_4fzyo82mv''),
             (''serverVersion'', JStr ''1.0.0''), (''environment'', JStr ''version'')]"
proof -
  let ?env = "[''API_KEY_IOS'' \<mapsto> ''ios-key'']"
  let ?c = "\<lparr>now = 1000, isoString = ''T1'', random36 = ''0.4fzyo82mvyr''\<rparr>"
  let ?r = "\<lparr>httpMethod = GET, path = [''config'', ''version''], ip = ''1.2.3.4'',
        headers = [''x-api-key'' \<mapsto> ''ios-key''], query = Map.empty, body = []\<rparr>"
  let ?s = "startup Map.empty ?env"
  let ?s' = "snd (rateLimit ?c ?r ?s)"
  have h1: "httpMethod ?r = GET" and h2: "path ?r = [''config'', ''version'']" by simp_all
  have h3: "fst (rateLimit ?c ?r ?s) = None" by code_simp
  have h4: "present (apiKey_of ?r)" by code_simp
  have h5: "apiKey_of ?r \<in> set (VALID_API_KEYS ?env)" by code_simp
  have doc: "object_at ?s' (APP_CONFIG ?s') = Some (getLegacyConfig ?env)" by code_simp
  have ne: "''version'' \<noteq> ''test''" by simp
  have ev1: "field (JObj (define_prop ''metadata'' (JObj (metadata_of ?env ?c ''version''))
        (spread (getLegacyConfig ?env) []))) ''checksum'' = JUndefined"
    by code_simp
  have ev2: "field (JObj (define_prop ''metadata'' (JObj (metadata_of ?env ?c ''version''))
        (spread (getLegacyConfig ?env) []))) ''metadata''
     = JObj [(''timestamp'', JStr ''T1''), (''requestId'', JStr ''req_1000_4fzyo82mv''),
             (''serverVersion'', JStr ''1.0.0''), (''environment'', JStr ''version'')]"
    by code_simp
  show ?thesis
    using version_route_is_shadowed[OF h1 h2 h3 h4 h5]
    unfolding environment_config_payload[OF ne doc] ev1 ev2 by simp
qed

end
